theory Spec2Isabelle
  imports Complex_Main
begin

section \<open>The OpenAI chat adapter of AutoChain: \<^verbatim>\<open>autochain/models/chat_openai.py\<close>\<close>

text \<open>
  The module holds one class, \<open>ChatOpenAI\<close>, with a pydantic root validator
  (\<open>validate_environment\<close>) and three methods: \<open>generate\<close>,
  \<open>_create_message_dicts\<close> and \<open>_create_llm_result\<close>. Each is translated below
  as a function of the same name (without the leading underscore, which an Isabelle
  name cannot start with). An exception is a value \<open>Inl e\<close> of a sum type, a dict
  indexed by the code is a map, and what the methods do to the world outside them
  (the process environment, the \<open>openai\<close> module, the remote service) is threaded
  through an explicit \<open>world\<close> record.
\<close>

subsection \<open>Python values and exceptions\<close>

text \<open>
  The values of type \<open>Any\<close> that travel through the adapter are JSON-like. A float is
  only stored and copied by this module, never computed with or compared, so its
  carrier does not matter; a nested dict is an association list read with \<open>map_of\<close>.
\<close>

datatype pyval =
    PNone
  | PBool bool
  | PInt int
  | PFloat real
  | PStr string
  | PList "pyval list"
  | PDict "(string \<times> pyval) list"

text \<open>
  The exceptions that leave the module. \<open>KeyError\<close> carries the missing key,
  \<open>ValueError\<close> and \<open>TypeError\<close> their message; \<open>OtherError\<close> is whatever a
  collaborator outside this file raises (the client's network and rate-limit errors,
  for instance).
\<close>

datatype error =
    KeyError string
  | ValueError string
  | TypeError string
  | OtherError string

text \<open>\<open>for res in v\<close>: a list yields its elements, a dict its keys, a string its
  characters; nothing else is iterable.\<close>

fun py_iter :: "pyval \<Rightarrow> error + pyval list" where
  "py_iter (PList xs) = Inr xs"
| "py_iter (PDict kvs) = Inr (map (\<lambda>kv. PStr (fst kv)) kvs)"
| "py_iter (PStr s) = Inr (map (\<lambda>c. PStr [c]) s)"
| "py_iter v = Inl (TypeError ''object is not iterable'')"

text \<open>\<open>v[k]\<close> for a string key \<open>k\<close>: only a dict can be subscripted by a string, and a
  missing key raises.\<close>

fun py_getitem :: "pyval \<Rightarrow> string \<Rightarrow> error + pyval" where
  "py_getitem (PDict kvs) k =
     (case map_of kvs k of None \<Rightarrow> Inl (KeyError k) | Some v \<Rightarrow> Inr v)"
| "py_getitem v k = Inl (TypeError ''object is not subscriptable by a string'')"

subsection \<open>The classes\<close>

type_synonym kwargs = "string \<rightharpoonup> pyval"

text \<open>\<open>request_timeout: Optional[Union[float, Tuple[float, float]]]\<close>.\<close>

datatype timeout = Seconds real | ConnectRead real real

text \<open>The fields of \<open>ChatOpenAI\<close>, with the types the class declares. \<open>'c\<close> is the type
  of the client object (\<open>openai.ChatCompletion\<close>), which the adapter never looks into.\<close>

record 'c ChatOpenAI =
  client :: "'c option"
  model_name :: string
  temperature :: real
  model_kwargs :: kwargs
  openai_api_key :: "string option"
  openai_organization :: "string option"
  request_timeout :: "timeout option"
  max_retries :: int
  max_tokens :: "int option"

text \<open>\<open>Generation\<close> and \<open>LLMResult\<close> are imported from \<open>autochain.models.base\<close>; the
  adapter builds them by keyword, \<open>Generation(message=...)\<close> and
  \<open>LLMResult(generations=..., llm_output=...)\<close>. \<open>'m\<close> is the type of a message
  (\<open>BaseMessage\<close>).\<close>

record 'm Generation =
  message :: 'm

record 'm LLMResult =
  generations :: "'m Generation list"
  llm_output :: kwargs

text \<open>
  The other names the adapter takes from \<open>autochain.models.base\<close>, a module of its
  own, are parameters: the two message converters, the property
  \<open>_default_params\<close> and the method \<open>generate_with_retry\<close>. A converter may raise. The
  call through the client reads and changes the state \<open>'w\<close> of the remote service, may
  raise, and, being a method of the object, is handed the object and hands it back.
\<close>

record ('m, 'c, 'w) base =
  convert_message_to_dict :: "'m \<Rightarrow> error + pyval"
  convert_dict_to_message :: "pyval \<Rightarrow> error + 'm"
  default_params :: "'c ChatOpenAI \<Rightarrow> kwargs"
  generate_with_retry ::
    "'c ChatOpenAI \<Rightarrow> kwargs \<Rightarrow> 'w \<Rightarrow> (error + kwargs) \<times> 'c ChatOpenAI \<times> 'w"

text \<open>The \<open>openai\<close> module as the validator sees it: its global \<open>api_key\<close>, and the
  attribute \<open>ChatCompletion\<close>, which an old version of the package does not have.\<close>

record 'c openai_module =
  api_key :: "string option"
  ChatCompletion :: "'c option"

text \<open>
  The world outside the object: \<open>os.environ\<close>, the \<open>openai\<close> module (\<open>None\<close> when the
  package is not installed, so that \<open>import openai\<close> raises \<open>ImportError\<close>), the state of
  the remote service, and the trace of the invocations of \<open>generate_with_retry\<close>, each
  recorded with the keyword arguments it was given.
\<close>

record ('c, 'w) world =
  environ :: "string \<rightharpoonup> string"
  openai :: "'c openai_module option"
  remote :: 'w
  api_calls :: "kwargs list"

subsection \<open>\<open>validate_environment\<close>\<close>

text \<open>
  The root validator runs when an object is constructed, on the dict \<open>values\<close> of the
  validated fields, represented here by the record of the fields. It reads the key from
  the environment first, then imports the package, then sets the module's global
  \<open>api_key\<close>, then reads \<open>openai.ChatCompletion\<close> into \<open>values["client"]\<close>.
\<close>

definition validate_environment ::
  "'c ChatOpenAI \<Rightarrow> ('c, 'w) world \<Rightarrow> (error + 'c ChatOpenAI) \<times> ('c, 'w) world" where
  "validate_environment values w =
     (case environ w ''OPENAI_API_KEY'' of
        None \<Rightarrow> (Inl (KeyError ''OPENAI_API_KEY''), w)
      | Some key \<Rightarrow>
          (case openai w of
             None \<Rightarrow>
               (Inl (ValueError
                  ''Could not import openai python package. Please install it with `pip install openai`.''),
                w)
           | Some m \<Rightarrow>
               (let w' = w\<lparr>openai := Some (m\<lparr>api_key := Some key\<rparr>)\<rparr>
                in case ChatCompletion m of
                     None \<Rightarrow>
                       (Inl (ValueError
                          ''`openai` has no `ChatCompletion` attribute, this is likely due to an old version of the openai package. Try upgrading it with `pip install --upgrade openai`.''),
                        w')
                   | Some cc \<Rightarrow> (Inr (values\<lparr>client := Some cc\<rparr>), w'))))"

subsection \<open>\<open>_create_message_dicts\<close>\<close>

text \<open>The comprehension \<open>[convert_message_to_dict(m) for m in messages]\<close>: the first
  message that fails to convert ends it.\<close>

fun message_dicts_of :: "('m \<Rightarrow> error + pyval) \<Rightarrow> 'm list \<Rightarrow> error + pyval list" where
  "message_dicts_of conv [] = Inr []"
| "message_dicts_of conv (m # ms) =
     (case conv m of
        Inl e \<Rightarrow> Inl e
      | Inr d \<Rightarrow>
          (case message_dicts_of conv ms of
             Inl e \<Rightarrow> Inl e
           | Inr ds \<Rightarrow> Inr (d # ds)))"

text \<open>
  \<open>params\<close> is a new dict, \<open>{"model": self.model_name}\<close> overlaid with the default
  params (a later entry wins). The check of \<open>stop\<close> comes before the messages are
  converted.
\<close>

definition create_message_dicts ::
  "('m, 'c, 'w) base \<Rightarrow> 'c ChatOpenAI \<Rightarrow> 'm list \<Rightarrow> string list option
     \<Rightarrow> error + (pyval list \<times> kwargs)" where
  "create_message_dicts b self messages stop =
     (let params = [''model'' \<mapsto> PStr (model_name self)] ++ default_params b self
      in case (case stop of
                 None \<Rightarrow> Inr params
               | Some s \<Rightarrow>
                   if params ''stop'' \<noteq> None
                   then Inl (ValueError ''`stop` found in both the input and default params.'')
                   else Inr (params(''stop'' \<mapsto> PList (map PStr s)))) of
           Inl e \<Rightarrow> Inl e
         | Inr params' \<Rightarrow>
             (case message_dicts_of (convert_message_to_dict b) messages of
                Inl e \<Rightarrow> Inl e
              | Inr message_dicts \<Rightarrow> Inr (message_dicts, params')))"

subsection \<open>\<open>_create_llm_result\<close>\<close>

text \<open>The loop body's first line, \<open>convert_dict_to_message(res["message"])\<close>.\<close>

definition choice_message :: "('m, 'c, 'w) base \<Rightarrow> pyval \<Rightarrow> error + 'm" where
  "choice_message b res =
     (case py_getitem res ''message'' of
        Inl e \<Rightarrow> Inl e
      | Inr d \<Rightarrow> convert_dict_to_message b d)"

text \<open>The loop over the choices, appending to \<open>generations\<close> (here \<open>gens\<close>).\<close>

fun generations_loop ::
  "('m, 'c, 'w) base \<Rightarrow> pyval list \<Rightarrow> 'm Generation list \<Rightarrow> error + 'm Generation list" where
  "generations_loop b [] gens = Inr gens"
| "generations_loop b (res # rest) gens =
     (case choice_message b res of
        Inl e \<Rightarrow> Inl e
      | Inr msg \<Rightarrow> generations_loop b rest (gens @ [\<lparr>message = msg\<rparr>]))"

text \<open>\<open>response["choices"]\<close> is read first, then the loop runs, then
  \<open>response["usage"]\<close> is read.\<close>

definition create_llm_result ::
  "('m, 'c, 'w) base \<Rightarrow> 'c ChatOpenAI \<Rightarrow> kwargs \<Rightarrow> error + 'm LLMResult" where
  "create_llm_result b self response =
     (case response ''choices'' of
        None \<Rightarrow> Inl (KeyError ''choices'')
      | Some choices \<Rightarrow>
          (case py_iter choices of
             Inl e \<Rightarrow> Inl e
           | Inr ress \<Rightarrow>
               (case generations_loop b ress [] of
                  Inl e \<Rightarrow> Inl e
                | Inr gens \<Rightarrow>
                    (case response ''usage'' of
                       None \<Rightarrow> Inl (KeyError ''usage'')
                     | Some usage \<Rightarrow>
                         Inr \<lparr>generations = gens,
                              llm_output = [''token_usage'' \<mapsto> usage,
                                            ''model_name'' \<mapsto> PStr (model_name self)]\<rparr>))))"

subsection \<open>\<open>generate\<close>\<close>

text \<open>
  The keyword arguments of the call \<open>self.generate_with_retry(messages=message_dicts,
  **params)\<close>. The method is bound to the object and takes \<open>**kwargs\<close>, so the call
  raises a \<open>TypeError\<close> without entering the method when \<open>params\<close> has a key
  \<open>messages\<close> of its own (the keyword is given twice), and when it has a key \<open>self\<close>
  (the method's first parameter is given twice). The first is found when the
  arguments are put together, the second when they are bound.
\<close>

definition call_kwargs :: "pyval list \<Rightarrow> kwargs \<Rightarrow> error + kwargs" where
  "call_kwargs message_dicts params =
     (if params ''messages'' \<noteq> None
      then Inl (TypeError ''got multiple values for keyword argument messages'')
      else if params ''self'' \<noteq> None
      then Inl (TypeError ''got multiple values for argument self'')
      else Inr (params(''messages'' \<mapsto> PList message_dicts)))"

text \<open>
  \<open>generate\<close> builds the request, enters \<open>generate_with_retry\<close> once, which the trace
  records, and turns the response into the result. The result is returned with the
  object and the world as the call leaves them.
\<close>

definition generate ::
  "('m, 'c, 'w) base \<Rightarrow> 'c ChatOpenAI \<Rightarrow> 'm list \<Rightarrow> string list option \<Rightarrow> ('c, 'w) world
     \<Rightarrow> (error + 'm LLMResult) \<times> 'c ChatOpenAI \<times> ('c, 'w) world" where
  "generate b self messages stop w =
     (case create_message_dicts b self messages stop of
        Inl e \<Rightarrow> (Inl e, self, w)
      | Inr (message_dicts, params) \<Rightarrow>
          (case call_kwargs message_dicts params of
             Inl e \<Rightarrow> (Inl e, self, w)
           | Inr kw \<Rightarrow>
               (let w1 = w\<lparr>api_calls := api_calls w @ [kw]\<rparr>
                in case generate_with_retry b self kw (remote w) of
                     (Inl e, self', rm) \<Rightarrow> (Inl e, self', w1\<lparr>remote := rm\<rparr>)
                   | (Inr response, self', rm) \<Rightarrow>
                       (create_llm_result b self' response, self', w1\<lparr>remote := rm\<rparr>))))"

subsection \<open>Concrete instances\<close>

text \<open>
  The defaults of the class's fields, and one instance of each parameter, on which the
  functions above can be evaluated: a message is a pair of a role and a content, the
  default params are the \<open>model_kwargs\<close> (the parameters that, by the class's
  docstring, are passed on to the \<open>create\<close> call), and the remote service answers
  each call with the next of a list of prepared answers.
\<close>

definition default_fields :: "'c ChatOpenAI" where
  "default_fields =
     \<lparr>client = None, model_name = ''gpt-3.5-turbo'', temperature = 0,
      model_kwargs = Map.empty, openai_api_key = None, openai_organization = None,
      request_timeout = None, max_retries = 6, max_tokens = None\<rparr>"

definition pair_to_dict :: "string \<times> string \<Rightarrow> error + pyval" where
  "pair_to_dict m = Inr (PDict [(''role'', PStr (fst m)), (''content'', PStr (snd m))])"

definition dict_to_pair :: "pyval \<Rightarrow> error + string \<times> string" where
  "dict_to_pair d =
     (case (py_getitem d ''role'', py_getitem d ''content'') of
        (Inr (PStr role), Inr (PStr content)) \<Rightarrow> Inr (role, content)
      | _ \<Rightarrow> Inl (ValueError ''not a role and a content''))"

definition next_answer ::
  "'c ChatOpenAI \<Rightarrow> kwargs \<Rightarrow> (error + kwargs) list
     \<Rightarrow> (error + kwargs) \<times> 'c ChatOpenAI \<times> (error + kwargs) list" where
  "next_answer self kw answers =
     (case answers of
        [] \<Rightarrow> (Inl (OtherError ''no answer''), self, [])
      | a # rest \<Rightarrow> (a, self, rest))"

definition pair_base :: "(string \<times> string, unit, (error + kwargs) list) base" where
  "pair_base =
     \<lparr>convert_message_to_dict = pair_to_dict, convert_dict_to_message = dict_to_pair,
      default_params = model_kwargs, generate_with_retry = next_answer\<rparr>"

definition two_choices :: kwargs where
  "two_choices =
     [''choices'' \<mapsto>
        PList [PDict [(''message'', PDict [(''role'', PStr ''assistant''), (''content'', PStr ''Hello'')])],
               PDict [(''message'', PDict [(''role'', PStr ''assistant''), (''content'', PStr ''Hi'')])]],
      ''usage'' \<mapsto> PDict [(''total_tokens'', PInt 9)]]"

definition ready_world :: "(unit, (error + kwargs) list) world" where
  "ready_world =
     \<lparr>environ = [''OPENAI_API_KEY'' \<mapsto> ''sk-test''],
      openai = Some \<lparr>api_key = None, ChatCompletion = Some ()\<rparr>,
      remote = [Inr two_choices], api_calls = []\<rparr>"

text \<open>An answer with one choice and no \<open>usage\<close> entry.\<close>

definition no_usage :: kwargs where
  "no_usage =
     [''choices'' \<mapsto>
        PList [PDict [(''message'', PDict [(''role'', PStr ''assistant''), (''content'', PStr ''Hello'')])]]]"

text \<open>An object constructed with \<open>model_kwargs={"stop": ["END"]}\<close>.\<close>

definition stop_in_kwargs :: "'c ChatOpenAI" where
  "stop_in_kwargs = default_fields\<lparr>model_kwargs := [''stop'' \<mapsto> PList [PStr ''END'']]\<rparr>"

text \<open>An object constructed with \<open>model_kwargs={"self": 1}\<close>.\<close>

definition self_in_kwargs :: "'c ChatOpenAI" where
  "self_in_kwargs = default_fields\<lparr>model_kwargs := [''self'' \<mapsto> PInt 1]\<rparr>"

text \<open>A process with no \<open>OPENAI_API_KEY\<close> and an \<open>openai\<close> package without
  \<open>ChatCompletion\<close>.\<close>

definition bare_world :: "(unit, (error + kwargs) list) world" where
  "bare_world =
     \<lparr>environ = Map.empty, openai = Some \<lparr>api_key = None, ChatCompletion = None\<rparr>,
      remote = [], api_calls = []\<rparr>"

text \<open>A world that differs from \<open>ready_world\<close> in everything but the next answer of the
  remote service.\<close>

definition later_world :: "(unit, (error + kwargs) list) world" where
  "later_world =
     \<lparr>environ = Map.empty, openai = None,
      remote = [Inr two_choices, Inl (OtherError ''rate limit'')],
      api_calls = [[''model'' \<mapsto> PStr ''gpt-4'']]\<rparr>"

section \<open>Properties\<close>

subsection \<open>What each function returns, and when\<close>

lemma message_dicts_of_Cons:
  "message_dicts_of conv (m # ms) = Inr ds \<longleftrightarrow>
     (\<exists>d ds'. conv m = Inr d \<and> message_dicts_of conv ms = Inr ds' \<and> ds = d # ds')"
  by (auto split: sum.splits)

lemma message_dicts_of_Inr:
  "message_dicts_of conv ms = Inr ds \<longleftrightarrow> list_all2 (\<lambda>m d. conv m = Inr d) ms ds"
proof (induction ms arbitrary: ds)
  case Nil
  show ?case by auto
next
  case (Cons m ms)
  show ?case
    unfolding message_dicts_of_Cons list_all2_Cons1 Cons.IH by blast
qed

lemma generations_loop_Cons:
  "generations_loop b (c # cs) acc = Inr gs \<longleftrightarrow>
     (\<exists>m. choice_message b c = Inr m \<and>
          generations_loop b cs (acc @ [\<lparr>message = m\<rparr>]) = Inr gs)"
  by (auto split: sum.splits)

lemma generations_loop_Inr:
  "generations_loop b cs acc = Inr gs \<longleftrightarrow>
     (\<exists>ms. list_all2 (\<lambda>c m. choice_message b c = Inr m) cs ms \<and>
           gs = acc @ map (\<lambda>m. \<lparr>message = m\<rparr>) ms)"
proof (induction cs arbitrary: acc)
  case Nil
  show ?case by auto
next
  case (Cons c cs)
  show ?case
  proof
    assume "generations_loop b (c # cs) acc = Inr gs"
    then obtain m ms where m: "choice_message b c = Inr m"
      and ms: "list_all2 (\<lambda>c m. choice_message b c = Inr m) cs ms"
      and gs: "gs = (acc @ [\<lparr>message = m\<rparr>]) @ map (\<lambda>m. \<lparr>message = m\<rparr>) ms"
      unfolding generations_loop_Cons Cons.IH by blast
    from m ms have "list_all2 (\<lambda>c m. choice_message b c = Inr m) (c # cs) (m # ms)"
      by simp
    moreover from gs have "gs = acc @ map (\<lambda>m. \<lparr>message = m\<rparr>) (m # ms)"
      by simp
    ultimately show "\<exists>ms. list_all2 (\<lambda>c m. choice_message b c = Inr m) (c # cs) ms \<and>
        gs = acc @ map (\<lambda>m. \<lparr>message = m\<rparr>) ms"
      by blast
  next
    assume "\<exists>ms. list_all2 (\<lambda>c m. choice_message b c = Inr m) (c # cs) ms \<and>
        gs = acc @ map (\<lambda>m. \<lparr>message = m\<rparr>) ms"
    then obtain m ms where m: "choice_message b c = Inr m"
      and ms: "list_all2 (\<lambda>c m. choice_message b c = Inr m) cs ms"
      and gs: "gs = acc @ map (\<lambda>m. \<lparr>message = m\<rparr>) (m # ms)"
      unfolding list_all2_Cons1 by blast
    from gs have "gs = (acc @ [\<lparr>message = m\<rparr>]) @ map (\<lambda>m. \<lparr>message = m\<rparr>) ms"
      by simp
    with m ms show "generations_loop b (c # cs) acc = Inr gs"
      unfolding generations_loop_Cons Cons.IH by blast
  qed
qed

lemma create_llm_result_Inr:
  "create_llm_result b self response = Inr r \<longleftrightarrow>
     (\<exists>choices ress gens usage.
        response ''choices'' = Some choices \<and> py_iter choices = Inr ress \<and>
        generations_loop b ress [] = Inr gens \<and> response ''usage'' = Some usage \<and>
        r = \<lparr>generations = gens,
             llm_output = [''token_usage'' \<mapsto> usage,
                           ''model_name'' \<mapsto> PStr (model_name self)]\<rparr>)"
  unfolding create_llm_result_def by (auto split: option.splits sum.splits)

lemma create_message_dicts_Inr:
  "create_message_dicts b self messages stop = Inr (ds, ps) \<longleftrightarrow>
     message_dicts_of (convert_message_to_dict b) messages = Inr ds \<and>
     (case stop of
        None \<Rightarrow> ps = [''model'' \<mapsto> PStr (model_name self)] ++ default_params b self
      | Some s \<Rightarrow>
          default_params b self ''stop'' = None \<and>
          ps = ([''model'' \<mapsto> PStr (model_name self)] ++ default_params b self)
                 (''stop'' \<mapsto> PList (map PStr s)))"
  unfolding create_message_dicts_def Let_def
  by (auto split: option.splits sum.splits simp: map_add_def)

lemma generate_raises_early:
  "create_message_dicts b self messages stop = Inl e \<Longrightarrow>
     generate b self messages stop w = (Inl e, self, w)"
  by (simp add: generate_def)

lemma call_kwargs_Inr:
  "call_kwargs ds ps = Inr kw \<longleftrightarrow>
     ps ''messages'' = None \<and> ps ''self'' = None \<and> kw = ps(''messages'' \<mapsto> PList ds)"
  by (auto simp: call_kwargs_def)

lemma generate_raises_at_call:
  "create_message_dicts b self messages stop = Inr (ds, ps) \<Longrightarrow> call_kwargs ds ps = Inl e \<Longrightarrow>
     generate b self messages stop w = (Inl e, self, w)"
  by (simp add: generate_def)

lemma generate_calls:
  "create_message_dicts b self messages stop = Inr (ds, ps) \<Longrightarrow> call_kwargs ds ps = Inr kw \<Longrightarrow>
   generate_with_retry b self kw (remote w) = (res, self', rm) \<Longrightarrow>
     generate b self messages stop w =
       ((case res of Inl e \<Rightarrow> Inl e | Inr response \<Rightarrow> create_llm_result b self' response),
        self',
        w\<lparr>api_calls := api_calls w @ [kw], remote := rm\<rparr>)"
  by (simp add: generate_def Let_def split: sum.splits)

lemma create_llm_result_model_name_only:
  "model_name s1 = model_name s2 \<Longrightarrow>
     create_llm_result b s1 response = create_llm_result b s2 response"
  by (simp add: create_llm_result_def split: option.splits sum.splits)

lemma list_all2_nth_eq:
  "list_all2 (\<lambda>x y. f x = Inr y) xs ys \<longleftrightarrow>
     length ys = length xs \<and> (\<forall>i<length xs. f (xs ! i) = Inr (ys ! i))"
  by (auto simp: list_all2_conv_all_nth)

subsection \<open>The answer of the service becomes the result\<close>

text \<open>
  C1, as it holds. For a response with a \<open>usage\<close> entry whose \<open>choices\<close> list has
  \<open>n\<close> elements, each with a \<open>message\<close> field that \<open>convert_dict_to_message\<close>
  converts without raising, \<open>_create_llm_result\<close> returns an \<open>LLMResult\<close> whose
  generations are exactly the \<open>n\<close> converted messages, each wrapped in a
  \<open>Generation\<close>, in the order of the choices. And whenever it returns at all on a
  response with a \<open>choices\<close> list, the generations are as many as the choices and the
  \<open>i\<close>-th wraps the message converted from the \<open>i\<close>-th choice.
\<close>

theorem create_llm_result_generations:
  "response ''choices'' = Some (PList cs) \<Longrightarrow>
     (response ''usage'' \<noteq> None \<and> length ms = length cs \<and>
      (\<forall>i<length cs. choice_message b (cs ! i) = Inr (ms ! i))
        \<longrightarrow> (\<exists>r. create_llm_result b self response = Inr r \<and>
                 generations r = map (\<lambda>m. \<lparr>message = m\<rparr>) ms)) \<and>
     (create_llm_result b self response = Inr r
        \<longrightarrow> length (generations r) = length cs \<and>
            (\<forall>i<length cs. choice_message b (cs ! i) = Inr (message (generations r ! i))))"
proof (intro conjI impI)
  assume cs: "response ''choices'' = Some (PList cs)"
    and pre: "response ''usage'' \<noteq> None \<and> length ms = length cs \<and>
      (\<forall>i<length cs. choice_message b (cs ! i) = Inr (ms ! i))"
  from pre obtain u where u: "response ''usage'' = Some u" by blast
  from pre have "list_all2 (\<lambda>c m. choice_message b c = Inr m) cs ms"
    unfolding list_all2_nth_eq by simp
  then have "generations_loop b cs [] = Inr (map (\<lambda>m. \<lparr>message = m\<rparr>) ms)"
    unfolding generations_loop_Inr by auto
  with cs u show "\<exists>r. create_llm_result b self response = Inr r \<and>
      generations r = map (\<lambda>m. \<lparr>message = m\<rparr>) ms"
    by (simp add: create_llm_result_def)
next
  assume cs: "response ''choices'' = Some (PList cs)"
    and r: "create_llm_result b self response = Inr r"
  from r cs have "generations_loop b cs [] = Inr (generations r)"
    unfolding create_llm_result_Inr by auto
  then obtain ms where ms: "list_all2 (\<lambda>c m. choice_message b c = Inr m) cs ms"
    and gs: "generations r = map (\<lambda>m. \<lparr>message = m\<rparr>) ms"
    unfolding generations_loop_Inr by auto
  from ms have len: "length ms = length cs"
    and nth: "\<forall>i<length cs. choice_message b (cs ! i) = Inr (ms ! i)"
    unfolding list_all2_nth_eq by simp_all
  from gs len show "length (generations r) = length cs" by simp
  from gs len nth
  show "\<forall>i<length cs. choice_message b (cs ! i) = Inr (message (generations r ! i))"
    by simp
qed

text \<open>The theorem at an answer with two choices.\<close>

theorem create_llm_result_generations_witness:
  "two_choices ''choices'' =
     Some (PList [PDict [(''message'', PDict [(''role'', PStr ''assistant''), (''content'', PStr ''Hello'')])],
                  PDict [(''message'', PDict [(''role'', PStr ''assistant''), (''content'', PStr ''Hi'')])]]) \<and>
   two_choices ''usage'' \<noteq> None \<and>
   create_llm_result pair_base default_fields two_choices =
     Inr \<lparr>generations = [\<lparr>message = (''assistant'', ''Hello'')\<rparr>, \<lparr>message = (''assistant'', ''Hi'')\<rparr>],
          llm_output = [''token_usage'' \<mapsto> PDict [(''total_tokens'', PInt 9)],
                        ''model_name'' \<mapsto> PStr ''gpt-3.5-turbo'']\<rparr>"
proof -
  let ?cs = "[PDict [(''message'', PDict [(''role'', PStr ''assistant''), (''content'', PStr ''Hello'')])],
              PDict [(''message'', PDict [(''role'', PStr ''assistant''), (''content'', PStr ''Hi'')])]]"
  let ?ms = "[(''assistant'', ''Hello''), (''assistant'', ''Hi'')]"
  let ?out = "[''token_usage'' \<mapsto> PDict [(''total_tokens'', PInt 9)],
               ''model_name'' \<mapsto> PStr ''gpt-3.5-turbo'']"
  have h1: "two_choices ''choices'' = Some (PList ?cs)"
    by (simp add: two_choices_def)
  have h2: "two_choices ''usage'' \<noteq> None"
    by (simp add: two_choices_def)
  have h3: "\<forall>i<length ?cs. choice_message pair_base (?cs ! i) = Inr (?ms ! i)"
    by (simp add: less_Suc_eq choice_message_def pair_base_def dict_to_pair_def)
  have out: "\<And>r. create_llm_result pair_base (default_fields :: unit ChatOpenAI) two_choices = Inr r
      \<Longrightarrow> llm_output r = ?out"
    unfolding create_llm_result_Inr
    by (auto simp: two_choices_def default_fields_def)
  have h4: "length ?ms = length ?cs" by simp
  from create_llm_result_generations [of two_choices ?cs ?ms pair_base default_fields, OF h1]
  have "\<exists>r. create_llm_result pair_base (default_fields :: unit ChatOpenAI) two_choices = Inr r \<and>
      generations r = map (\<lambda>m. \<lparr>message = m\<rparr>) ?ms"
    using h2 h3 h4 by blast
  then obtain r where r: "create_llm_result pair_base (default_fields :: unit ChatOpenAI) two_choices = Inr r"
    and g: "generations r = map (\<lambda>m. \<lparr>message = m\<rparr>) ?ms"
    by blast
  from out [OF r] g have "r = \<lparr>generations = map (\<lambda>m. \<lparr>message = m\<rparr>) ?ms, llm_output = ?out\<rparr>"
    by simp
  with r h1 h2 show ?thesis by simp
qed

text \<open>
  Without the conditions the statement fails: a response with a \<open>choices\<close> list and
  no \<open>usage\<close> entry makes \<open>response["usage"]\<close> raise \<open>KeyError\<close> after the loop, and
  no result is returned.
\<close>

theorem create_llm_result_no_usage:
  "no_usage ''choices'' =
     Some (PList [PDict [(''message'', PDict [(''role'', PStr ''assistant''), (''content'', PStr ''Hello'')])]]) \<and>
   create_llm_result pair_base default_fields no_usage = Inl (KeyError ''usage'')"
  by (simp add: no_usage_def create_llm_result_def choice_message_def pair_base_def
      dict_to_pair_def)

subsection \<open>The messages become the request\<close>

text \<open>
  C2, as it holds. When \<open>stop\<close> is \<open>None\<close> or the default params have no \<open>stop\<close>
  entry, and \<open>convert_message_to_dict\<close> converts every message, \<open>_create_message_dicts\<close>
  returns the list of the converted messages: as long as the input, the \<open>i\<close>-th dict
  the conversion of the \<open>i\<close>-th message. And whenever it returns at all, the list it
  returns is that one.
\<close>

theorem create_message_dicts_conversion:
  "((stop = None \<or> default_params b self ''stop'' = None) \<and> length ds = length messages \<and>
    (\<forall>i<length messages. convert_message_to_dict b (messages ! i) = Inr (ds ! i))
      \<longrightarrow> (\<exists>ps. create_message_dicts b self messages stop = Inr (ds, ps))) \<and>
   (create_message_dicts b self messages stop = Inr (ds, ps)
      \<longrightarrow> length ds = length messages \<and>
          (\<forall>i<length messages. convert_message_to_dict b (messages ! i) = Inr (ds ! i)))"
  unfolding create_message_dicts_Inr message_dicts_of_Inr list_all2_nth_eq
  by (cases stop) auto

text \<open>The theorem at a system and a user message, with a stop list.\<close>

theorem create_message_dicts_conversion_witness:
  "default_params pair_base (default_fields :: unit ChatOpenAI) ''stop'' = None \<and>
   convert_message_to_dict pair_base (''system'', ''Be brief'') =
     Inr (PDict [(''role'', PStr ''system''), (''content'', PStr ''Be brief'')]) \<and>
   convert_message_to_dict pair_base (''user'', ''Say hello'') =
     Inr (PDict [(''role'', PStr ''user''), (''content'', PStr ''Say hello'')]) \<and>
   (\<exists>ps. create_message_dicts pair_base default_fields
           [(''system'', ''Be brief''), (''user'', ''Say hello'')] (Some [''END'']) =
         Inr ([PDict [(''role'', PStr ''system''), (''content'', PStr ''Be brief'')],
               PDict [(''role'', PStr ''user''), (''content'', PStr ''Say hello'')]], ps))"
proof -
  let ?messages = "[(''system'', ''Be brief''), (''user'', ''Say hello'')]"
  let ?ds = "[PDict [(''role'', PStr ''system''), (''content'', PStr ''Be brief'')],
              PDict [(''role'', PStr ''user''), (''content'', PStr ''Say hello'')]]"
  have h1: "default_params pair_base (default_fields :: unit ChatOpenAI) ''stop'' = None"
    by (simp add: pair_base_def default_fields_def)
  have h2: "length ?ds = length ?messages" by simp
  have c1: "convert_message_to_dict pair_base (''system'', ''Be brief'') =
     Inr (PDict [(''role'', PStr ''system''), (''content'', PStr ''Be brief'')])"
    and c2: "convert_message_to_dict pair_base (''user'', ''Say hello'') =
     Inr (PDict [(''role'', PStr ''user''), (''content'', PStr ''Say hello'')])"
    by (simp_all add: pair_base_def pair_to_dict_def)
  have h3: "\<forall>i<length ?messages. convert_message_to_dict pair_base (?messages ! i) = Inr (?ds ! i)"
    using c1 c2 by (simp add: less_Suc_eq)
  from create_message_dicts_conversion
         [of "Some [''END'']" pair_base default_fields ?ds ?messages, THEN conjunct1]
  have "\<exists>ps. create_message_dicts pair_base (default_fields :: unit ChatOpenAI) ?messages
           (Some [''END'']) = Inr (?ds, ps)"
    using h1 h2 h3 by blast
  with h1 c1 c2 show ?thesis by blast
qed

text \<open>
  Not for every stop list: when the object was built with a \<open>stop\<close> among its
  \<open>model_kwargs\<close> and \<open>stop\<close> is passed as well, the method raises the \<open>ValueError\<close> of
  its guard and returns no list.
\<close>

theorem create_message_dicts_stop_twice:
  "create_message_dicts pair_base stop_in_kwargs [(''user'', ''Say hello'')] (Some [''.'']) =
     Inl (ValueError ''`stop` found in both the input and default params.'')"
  by (simp add: create_message_dicts_def pair_base_def stop_in_kwargs_def default_fields_def
      map_add_def)

subsection \<open>Validation\<close>

text \<open>
  C3. When \<open>OPENAI_API_KEY\<close> is not in the environment, \<open>validate_environment\<close>
  raises (the \<open>KeyError\<close> of \<open>os.environ["OPENAI_API_KEY"]\<close>), and it leaves the world
  as it found it: nothing has been sent to the remote service, and not even the
  module's \<open>api_key\<close> has been set.
\<close>

theorem validate_environment_missing_key:
  "environ w ''OPENAI_API_KEY'' = None \<Longrightarrow>
     validate_environment values w = (Inl (KeyError ''OPENAI_API_KEY''), w)"
  by (simp add: validate_environment_def)

text \<open>The theorem in a process whose environment is empty.\<close>

theorem validate_environment_missing_key_witness:
  "environ bare_world ''OPENAI_API_KEY'' = None \<and>
   validate_environment default_fields bare_world = (Inl (KeyError ''OPENAI_API_KEY''), bare_world) \<and>
   api_calls (snd (validate_environment default_fields bare_world)) = []"
proof -
  have h: "environ bare_world ''OPENAI_API_KEY'' = None"
    by (simp add: bare_world_def)
  from validate_environment_missing_key [OF h, of default_fields] h
  show ?thesis by (simp add: bare_world_def)
qed

text \<open>
  C4, as it holds. When the \<open>openai\<close> package has no \<open>ChatCompletion\<close> attribute,
  \<open>validate_environment\<close> raises, and no call has been made: a \<open>ValueError\<close> when
  \<open>OPENAI_API_KEY\<close> is set, and the \<open>KeyError\<close> of the missing key otherwise, since the
  environment is read first.
\<close>

theorem validate_environment_old_client:
  "openai w = Some m \<Longrightarrow> ChatCompletion m = None \<Longrightarrow>
     (\<exists>e. fst (validate_environment values w) = Inl e) \<and>
     api_calls (snd (validate_environment values w)) = api_calls w \<and>
     (environ w ''OPENAI_API_KEY'' \<noteq> None
        \<longrightarrow> (\<exists>msg. fst (validate_environment values w) = Inl (ValueError msg))) \<and>
     (environ w ''OPENAI_API_KEY'' = None
        \<longrightarrow> fst (validate_environment values w) = Inl (KeyError ''OPENAI_API_KEY''))"
  by (simp add: validate_environment_def Let_def split: option.splits)

text \<open>The theorem with an old package and the key set.\<close>

theorem validate_environment_old_client_witness:
  "openai (bare_world\<lparr>environ := [''OPENAI_API_KEY'' \<mapsto> ''sk-test'']\<rparr>) =
     Some \<lparr>api_key = None, ChatCompletion = None\<rparr> \<and>
   environ (bare_world\<lparr>environ := [''OPENAI_API_KEY'' \<mapsto> ''sk-test'']\<rparr>) ''OPENAI_API_KEY'' \<noteq> None \<and>
   (\<exists>msg. fst (validate_environment default_fields
                 (bare_world\<lparr>environ := [''OPENAI_API_KEY'' \<mapsto> ''sk-test'']\<rparr>)) =
          Inl (ValueError msg))"
proof -
  let ?w = "bare_world\<lparr>environ := [''OPENAI_API_KEY'' \<mapsto> ''sk-test'']\<rparr>"
  have h1: "openai ?w = Some \<lparr>api_key = None, ChatCompletion = None\<rparr>"
    by (simp add: bare_world_def)
  have h2: "ChatCompletion \<lparr>api_key = None, ChatCompletion = (None :: unit option)\<rparr> = None"
    by simp
  have h3: "environ ?w ''OPENAI_API_KEY'' \<noteq> None"
    by simp
  from validate_environment_old_client [OF h1 h2, of default_fields] h3
  have "\<exists>msg. fst (validate_environment default_fields ?w) = Inl (ValueError msg)"
    by blast
  with h1 h3 show ?thesis by blast
qed

text \<open>With an old package and no key, the exception is the \<open>KeyError\<close>, which is not a
  \<open>ValueError\<close>.\<close>

theorem validate_environment_key_checked_first:
  "openai bare_world = Some \<lparr>api_key = None, ChatCompletion = None\<rparr> \<and>
   fst (validate_environment default_fields bare_world) = Inl (KeyError ''OPENAI_API_KEY'')"
  by (simp add: validate_environment_def bare_world_def)

subsection \<open>Usage metadata\<close>

text \<open>
  C5. The \<open>LLMResult\<close> that \<open>_create_llm_result\<close> builds carries the usage of the
  response as it is: the response has a \<open>usage\<close> entry, and
  \<open>llm_output["token_usage"]\<close> is that value.
\<close>

theorem create_llm_result_usage:
  "create_llm_result b self response = Inr r \<Longrightarrow>
     response ''usage'' \<noteq> None \<and> llm_output r ''token_usage'' = response ''usage''"
  unfolding create_llm_result_Inr by auto

text \<open>The theorem at the answer with two choices.\<close>

theorem create_llm_result_usage_witness:
  "(\<exists>r. create_llm_result pair_base default_fields two_choices = Inr r \<and>
        llm_output r ''token_usage'' = Some (PDict [(''total_tokens'', PInt 9)])) \<and>
   two_choices ''usage'' = Some (PDict [(''total_tokens'', PInt 9)])"
proof -
  have "\<exists>r. create_llm_result pair_base (default_fields :: unit ChatOpenAI) two_choices = Inr r"
    by (simp add: create_llm_result_def two_choices_def choice_message_def pair_base_def
        dict_to_pair_def)
  then obtain r where r: "create_llm_result pair_base (default_fields :: unit ChatOpenAI) two_choices = Inr r"
    by blast
  have u: "two_choices ''usage'' = Some (PDict [(''total_tokens'', PInt 9)])"
    by (simp add: two_choices_def)
  from create_llm_result_usage [OF r] u r show ?thesis by auto
qed

subsection \<open>One call, and an object left as it was\<close>


text \<open>The object after \<open>generate\<close> is the object as \<open>generate_with_retry\<close> left it.\<close>

lemma generate_object_kept:
  "(\<forall>kw rm. fst (snd (generate_with_retry b self kw rm)) = self) \<Longrightarrow>
     fst (snd (generate b self messages stop w)) = self"
proof -
  assume keeps: "\<forall>kw rm. fst (snd (generate_with_retry b self kw rm)) = self"
  show ?thesis
  proof (cases "create_message_dicts b self messages stop")
    case (Inl e)
    then show ?thesis by (simp add: generate_raises_early)
  next
    case (Inr p)
    obtain ds ps where p: "p = (ds, ps)" by (cases p)
    show ?thesis
    proof (cases "call_kwargs ds ps")
      case (Inl e)
      with Inr p show ?thesis by (simp add: generate_raises_at_call)
    next
      case kw: (Inr kw)
      obtain res self' rm
        where call: "generate_with_retry b self kw (remote w) = (res, self', rm)"
        by (cases "generate_with_retry b self kw (remote w)")
      from keeps have "fst (snd (generate_with_retry b self kw (remote w))) = self"
        by blast
      with call have "self' = self" by simp
      with generate_calls [OF Inr [unfolded p] kw call] show ?thesis by simp
    qed
  qed
qed

text \<open>
  C6, as it holds. An invocation of \<open>generate\<close> enters \<open>generate_with_retry\<close> at most
  once, and there is no concurrent or repeated dispatch within the adapter. When
  \<open>_create_message_dicts\<close> raises, or the params hold a \<open>messages\<close> or a \<open>self\<close> key, which
  clashes with the call's own arguments, \<open>generate\<close> raises and the world is as
  before: no call was made. Otherwise there is exactly one call, with the params and
  the message dicts: the trace has one more entry, and the object and the remote
  service are as one call of \<open>generate_with_retry\<close> from the state before leaves them.
  Whenever \<open>generate\<close> returns a result, it has made exactly that one call.
\<close>

theorem generate_calls_at_most_once:
  "(create_message_dicts b self messages stop = Inl e
      \<longrightarrow> generate b self messages stop w = (Inl e, self, w)) \<and>
   (create_message_dicts b self messages stop = Inr (ds, ps) \<and>
    (ps ''messages'' \<noteq> None \<or> ps ''self'' \<noteq> None)
      \<longrightarrow> (\<exists>msg. generate b self messages stop w = (Inl (TypeError msg), self, w))) \<and>
   (create_message_dicts b self messages stop = Inr (ds, ps) \<and>
    ps ''messages'' = None \<and> ps ''self'' = None
      \<longrightarrow> snd (generate b self messages stop w) =
            (fst (snd (generate_with_retry b self (ps(''messages'' \<mapsto> PList ds)) (remote w))),
             w\<lparr>api_calls := api_calls w @ [ps(''messages'' \<mapsto> PList ds)],
               remote := snd (snd (generate_with_retry b self (ps(''messages'' \<mapsto> PList ds))
                                     (remote w)))\<rparr>)) \<and>
   (fst (generate b self messages stop w) = Inr r
      \<longrightarrow> (\<exists>kw. api_calls (snd (snd (generate b self messages stop w))) = api_calls w @ [kw] \<and>
               remote (snd (snd (generate b self messages stop w))) =
                 snd (snd (generate_with_retry b self kw (remote w)))))"
proof (intro conjI impI)
  assume "create_message_dicts b self messages stop = Inl e"
  then show "generate b self messages stop w = (Inl e, self, w)"
    by (rule generate_raises_early)
next
  assume a: "create_message_dicts b self messages stop = Inr (ds, ps) \<and>
    (ps ''messages'' \<noteq> None \<or> ps ''self'' \<noteq> None)"
  then have c: "create_message_dicts b self messages stop = Inr (ds, ps)"
    by blast
  from a have "\<exists>msg. call_kwargs ds ps = Inl (TypeError msg)"
    by (auto simp: call_kwargs_def)
  then obtain msg where "call_kwargs ds ps = Inl (TypeError msg)"
    by blast
  with c have "generate b self messages stop w = (Inl (TypeError msg), self, w)"
    by (rule generate_raises_at_call)
  then show "\<exists>msg. generate b self messages stop w = (Inl (TypeError msg), self, w)"
    by blast
next
  let ?kw = "ps(''messages'' \<mapsto> PList ds)"
  assume a: "create_message_dicts b self messages stop = Inr (ds, ps) \<and>
    ps ''messages'' = None \<and> ps ''self'' = None"
  then have c: "create_message_dicts b self messages stop = Inr (ds, ps)"
    by blast
  from a have kw: "call_kwargs ds ps = Inr ?kw"
    unfolding call_kwargs_Inr by blast
  obtain res self' rm
    where call: "generate_with_retry b self ?kw (remote w) = (res, self', rm)"
    by (cases "generate_with_retry b self ?kw (remote w)")
  from generate_calls [OF c kw call] call
  show "snd (generate b self messages stop w) =
      (fst (snd (generate_with_retry b self ?kw (remote w))),
       w\<lparr>api_calls := api_calls w @ [?kw],
         remote := snd (snd (generate_with_retry b self ?kw (remote w)))\<rparr>)"
    by simp
next
  assume r: "fst (generate b self messages stop w) = Inr r"
  show "\<exists>kw. api_calls (snd (snd (generate b self messages stop w))) = api_calls w @ [kw] \<and>
      remote (snd (snd (generate b self messages stop w))) =
        snd (snd (generate_with_retry b self kw (remote w)))"
  proof (cases "create_message_dicts b self messages stop")
    case (Inl e)
    with r show ?thesis by (simp add: generate_raises_early)
  next
    case (Inr p)
    obtain ds ps where p: "p = (ds, ps)" by (cases p)
    show ?thesis
    proof (cases "call_kwargs ds ps")
      case (Inl e)
      with Inr p r show ?thesis by (simp add: generate_raises_at_call)
    next
      case kw: (Inr kw)
      obtain res self' rm
        where call: "generate_with_retry b self kw (remote w) = (res, self', rm)"
        by (cases "generate_with_retry b self kw (remote w)")
      from generate_calls [OF Inr [unfolded p] kw call] call
      have "api_calls (snd (snd (generate b self messages stop w))) = api_calls w @ [kw] \<and>
        remote (snd (snd (generate b self messages stop w))) =
          snd (snd (generate_with_retry b self kw (remote w)))"
        by simp
      then show ?thesis by blast
    qed
  qed
qed

text \<open>
  The theorem where the stop guard raises, where the params hold a \<open>self\<close> key, and at
  a call that returns a result, in a world whose remote service has two answers
  ready: one of them is left.
\<close>

theorem generate_calls_at_most_once_witness:
  "generate pair_base stop_in_kwargs [(''user'', ''Say hello'')] (Some [''.'']) later_world =
     (Inl (ValueError ''`stop` found in both the input and default params.''),
      stop_in_kwargs, later_world) \<and>
   (\<exists>msg. generate pair_base self_in_kwargs [(''user'', ''Say hello'')] None later_world =
           (Inl (TypeError msg), self_in_kwargs, later_world)) \<and>
   (\<exists>r. fst (generate pair_base default_fields [(''user'', ''Say hello'')] None later_world) =
          Inr r) \<and>
   snd (generate pair_base default_fields [(''user'', ''Say hello'')] None later_world) =
     (default_fields,
      later_world
        \<lparr>api_calls :=
           [[''model'' \<mapsto> PStr ''gpt-4''],
            [''model'' \<mapsto> PStr ''gpt-3.5-turbo'',
             ''messages'' \<mapsto> PList [PDict [(''role'', PStr ''user''),
                                                (''content'', PStr ''Say hello'')]]]],
         remote := [Inl (OtherError ''rate limit'')]\<rparr>)"
proof -
  let ?msgs = "[(''user'', ''Say hello'')]"
  let ?ds = "[PDict [(''role'', PStr ''user''), (''content'', PStr ''Say hello'')]]"
  let ?ps = "[''model'' \<mapsto> PStr ''gpt-3.5-turbo''] ++ Map.empty"
  let ?qs = "[''model'' \<mapsto> PStr ''gpt-3.5-turbo''] ++ [''self'' \<mapsto> PInt 1]"
  have twice: "create_message_dicts pair_base (stop_in_kwargs :: unit ChatOpenAI) ?msgs (Some [''.'']) =
      Inl (ValueError ''`stop` found in both the input and default params.'')"
    by (simp add: create_message_dicts_def pair_base_def stop_in_kwargs_def default_fields_def
        map_add_def)
  have clash: "create_message_dicts pair_base (self_in_kwargs :: unit ChatOpenAI) ?msgs None =
      Inr (?ds, ?qs)"
    by (simp add: create_message_dicts_def pair_base_def self_in_kwargs_def default_fields_def
        pair_to_dict_def)
  have clash': "?qs ''messages'' \<noteq> None \<or> ?qs ''self'' \<noteq> None"
    by simp
  have plain: "create_message_dicts pair_base (default_fields :: unit ChatOpenAI) ?msgs None =
      Inr (?ds, ?ps)"
    by (simp add: create_message_dicts_def pair_base_def default_fields_def pair_to_dict_def)
  have plain': "?ps ''messages'' = None \<and> ?ps ''self'' = None"
    by simp
  have res: "\<exists>r. fst (generate pair_base default_fields ?msgs None later_world) = Inr r"
    by (simp add: generate_def call_kwargs_def create_message_dicts_def create_llm_result_def
        choice_message_def pair_base_def pair_to_dict_def dict_to_pair_def next_answer_def
        default_fields_def later_world_def two_choices_def map_add_def)
  from generate_calls_at_most_once [where b = pair_base and self = stop_in_kwargs and messages = ?msgs
      and stop = "Some [''.'']" and w = later_world, THEN conjunct1] twice
  have a: "generate pair_base stop_in_kwargs ?msgs (Some [''.'']) later_world =
     (Inl (ValueError ''`stop` found in both the input and default params.''),
      stop_in_kwargs, later_world)"
    by blast
  from generate_calls_at_most_once [where b = pair_base and self = self_in_kwargs and messages = ?msgs
      and stop = None and w = later_world and ds = ?ds and ps = ?qs,
      THEN conjunct2, THEN conjunct1] clash clash'
  have b: "\<exists>msg. generate pair_base self_in_kwargs ?msgs None later_world =
           (Inl (TypeError msg), self_in_kwargs, later_world)"
    by blast
  from generate_calls_at_most_once [where b = pair_base and self = default_fields and messages = ?msgs
      and stop = None and w = later_world and ds = ?ds and ps = ?ps,
      THEN conjunct2, THEN conjunct2, THEN conjunct1] plain plain'
  have "snd (generate pair_base default_fields ?msgs None later_world) =
      (fst (snd (generate_with_retry pair_base default_fields (?ps(''messages'' \<mapsto> PList ?ds))
                   (remote later_world))),
       later_world\<lparr>api_calls := api_calls later_world @ [?ps(''messages'' \<mapsto> PList ?ds)],
         remote := snd (snd (generate_with_retry pair_base (default_fields :: unit ChatOpenAI)
                               (?ps(''messages'' \<mapsto> PList ?ds)) (remote later_world)))\<rparr>)"
    by blast
  then have c: "snd (generate pair_base default_fields ?msgs None later_world) =
     (default_fields,
      later_world
        \<lparr>api_calls :=
           [[''model'' \<mapsto> PStr ''gpt-4''],
            [''model'' \<mapsto> PStr ''gpt-3.5-turbo'', ''messages'' \<mapsto> PList ?ds]],
         remote := [Inl (OtherError ''rate limit'')]\<rparr>)"
    by (simp add: pair_base_def next_answer_def later_world_def)
  from a b res c show ?thesis by blast
qed

text \<open>
  Not every invocation makes a call: with \<open>stop\<close> given twice, \<open>generate\<close> raises and
  the world, its trace of calls included, is as before.
\<close>

theorem generate_no_call_when_stop_twice:
  "generate pair_base stop_in_kwargs [(''user'', ''Say hello'')] (Some [''.'']) ready_world =
     (Inl (ValueError ''`stop` found in both the input and default params.''),
      stop_in_kwargs, ready_world) \<and>
   api_calls ready_world = []"
  by (simp add: generate_def create_message_dicts_def pair_base_def stop_in_kwargs_def
      default_fields_def map_add_def ready_world_def)

text \<open>
  C7. \<open>generate\<close> assigns no field of the object. The one place where the object
  could change under it is \<open>generate_with_retry\<close>, a method of the object defined
  outside this file; when that method leaves the fields alone, all nine fields are
  after the call what they were before it, whether \<open>generate\<close> returns or raises.
\<close>

theorem generate_keeps_fields:
  "(\<forall>kw rm. fst (snd (generate_with_retry b self kw rm)) = self) \<Longrightarrow>
     fst (snd (generate b self messages stop w)) = self"
  by (rule generate_object_kept)

text \<open>The theorem at an object with a \<open>stop\<close> among its \<open>model_kwargs\<close>.\<close>

theorem generate_keeps_fields_witness:
  "(\<forall>kw rm. fst (snd (generate_with_retry pair_base stop_in_kwargs kw rm)) = stop_in_kwargs) \<and>
   fst (snd (generate pair_base stop_in_kwargs [(''user'', ''Say hello'')] None ready_world)) =
     stop_in_kwargs"
proof -
  have h: "\<forall>kw rm. fst (snd (generate_with_retry pair_base (stop_in_kwargs :: unit ChatOpenAI) kw rm)) =
      stop_in_kwargs"
    by (simp add: pair_base_def next_answer_def split: list.splits)
  from generate_keeps_fields [OF h] h show ?thesis by blast
qed

subsection \<open>The stop list\<close>



subsection \<open>The model name in the result\<close>

text \<open>
  C9. Whatever the response holds, the \<open>llm_output\<close> of a result that \<open>generate\<close>
  returns has a \<open>model_name\<close> entry, and it is the \<open>model_name\<close> field of the object as
  the call through the client left it; that is the field the object was configured
  with, as long as \<open>generate_with_retry\<close> leaves the fields alone.
\<close>

theorem generate_model_name:
  "generate b self messages stop w = (Inr r, self', w') \<Longrightarrow>
     llm_output r ''model_name'' = Some (PStr (model_name self')) \<and>
     ((\<forall>kw rm. fst (snd (generate_with_retry b self kw rm)) = self)
        \<longrightarrow> llm_output r ''model_name'' = Some (PStr (model_name self)))"
proof -
  assume g: "generate b self messages stop w = (Inr r, self', w')"
  have after: "llm_output r ''model_name'' = Some (PStr (model_name self'))"
  proof (cases "create_message_dicts b self messages stop")
    case (Inl e)
    with g show ?thesis by (simp add: generate_raises_early)
  next
    case (Inr p)
    obtain ds ps where p: "p = (ds, ps)" by (cases p)
    show ?thesis
    proof (cases "call_kwargs ds ps")
      case (Inl e)
      with Inr p g show ?thesis by (simp add: generate_raises_at_call)
    next
      case kw: (Inr kw)
      obtain res s1 rm
        where call: "generate_with_retry b self kw (remote w) = (res, s1, rm)"
        by (cases "generate_with_retry b self kw (remote w)")
      from generate_calls [OF Inr [unfolded p] kw call] g
      have s1: "s1 = self'"
        and res: "(case res of Inl e \<Rightarrow> Inl e | Inr response \<Rightarrow> create_llm_result b s1 response) = Inr r"
        by simp_all
      from res obtain response where "create_llm_result b s1 response = Inr r"
        by (cases res) auto
      then show ?thesis
        unfolding create_llm_result_Inr s1 by auto
    qed
  qed
  moreover have "model_name self' = model_name self"
    if "\<forall>kw rm. fst (snd (generate_with_retry b self kw rm)) = self"
  proof -
    from that have "fst (snd (generate b self messages stop w)) = self"
      by (rule generate_object_kept)
    with g show ?thesis by simp
  qed
  ultimately show ?thesis by simp
qed

text \<open>The theorem at an object configured with another model.\<close>

theorem generate_model_name_witness:
  "(\<forall>kw rm. fst (snd (generate_with_retry pair_base
        (default_fields\<lparr>model_name := ''gpt-4''\<rparr>) kw rm)) =
      default_fields\<lparr>model_name := ''gpt-4''\<rparr>) \<and>
   (\<exists>r s' w'. generate pair_base (default_fields\<lparr>model_name := ''gpt-4''\<rparr>)
        [(''user'', ''Say hello'')] None ready_world = (Inr r, s', w') \<and>
      llm_output r ''model_name'' = Some (PStr ''gpt-4''))"
proof -
  let ?self = "default_fields\<lparr>model_name := ''gpt-4''\<rparr> :: unit ChatOpenAI"
  have keeps: "\<forall>kw rm. fst (snd (generate_with_retry pair_base ?self kw rm)) = ?self"
    by (simp add: pair_base_def next_answer_def split: list.splits)
  have "\<exists>r s' w'. generate pair_base ?self [(''user'', ''Say hello'')] None ready_world =
      (Inr r, s', w')"
    by (simp add: generate_def call_kwargs_def create_message_dicts_def create_llm_result_def choice_message_def
        pair_base_def pair_to_dict_def dict_to_pair_def next_answer_def default_fields_def
        ready_world_def two_choices_def map_add_def)
  then obtain r s' w' where g: "generate pair_base ?self [(''user'', ''Say hello'')] None ready_world =
      (Inr r, s', w')"
    by blast
  from generate_model_name [OF g] keeps
  have "llm_output r ''model_name'' = Some (PStr (model_name ?self))"
    by blast
  then have "llm_output r ''model_name'' = Some (PStr ''gpt-4'')"
    by simp
  with keeps g show ?thesis by blast
qed

subsection \<open>Determinism\<close>

text \<open>
  C10. Two runs of \<open>generate\<close> on the same object, the same messages and the same
  \<open>stop\<close>, in two worlds that may differ in everything (the environment, the state of
  the remote service, the calls made so far), end alike, in the same result or the
  same exception, as soon as the call through the client answers alike in both: the
  same response or exception, and the same model name left in the object.
\<close>

theorem generate_deterministic:
  "(\<forall>kw. fst (generate_with_retry b self kw (remote w1)) =
          fst (generate_with_retry b self kw (remote w2)) \<and>
        model_name (fst (snd (generate_with_retry b self kw (remote w1)))) =
          model_name (fst (snd (generate_with_retry b self kw (remote w2))))) \<Longrightarrow>
     fst (generate b self messages stop w1) = fst (generate b self messages stop w2)"
proof -
  assume same: "\<forall>kw. fst (generate_with_retry b self kw (remote w1)) =
          fst (generate_with_retry b self kw (remote w2)) \<and>
        model_name (fst (snd (generate_with_retry b self kw (remote w1)))) =
          model_name (fst (snd (generate_with_retry b self kw (remote w2))))"
  show ?thesis
  proof (cases "create_message_dicts b self messages stop")
    case (Inl e)
    then show ?thesis by (simp add: generate_raises_early)
  next
    case (Inr p)
    obtain ds ps where p: "p = (ds, ps)" by (cases p)
    show ?thesis
    proof (cases "call_kwargs ds ps")
      case (Inl e)
      with Inr p show ?thesis by (simp add: generate_raises_at_call)
    next
      case kw: (Inr kw)
      let ?kw = kw
      obtain res1 s1 rm1
        where call1: "generate_with_retry b self ?kw (remote w1) = (res1, s1, rm1)"
        by (cases "generate_with_retry b self ?kw (remote w1)")
      obtain res2 s2 rm2
        where call2: "generate_with_retry b self ?kw (remote w2) = (res2, s2, rm2)"
        by (cases "generate_with_retry b self ?kw (remote w2)")
      from same have "fst (generate_with_retry b self ?kw (remote w1)) =
          fst (generate_with_retry b self ?kw (remote w2)) \<and>
        model_name (fst (snd (generate_with_retry b self ?kw (remote w1)))) =
          model_name (fst (snd (generate_with_retry b self ?kw (remote w2))))"
        by blast
      with call1 call2 have res: "res1 = res2" and name: "model_name s1 = model_name s2"
        by simp_all
      from name have "\<And>response. create_llm_result b s1 response = create_llm_result b s2 response"
        by (rule create_llm_result_model_name_only)
      with res generate_calls [OF Inr [unfolded p] kw call1]
        generate_calls [OF Inr [unfolded p] kw call2]
      show ?thesis by (cases res2) simp_all
    qed
  qed
qed

text \<open>The theorem in two worlds whose remote services differ beyond their next answer.\<close>

theorem generate_deterministic_witness:
  "remote ready_world \<noteq> remote later_world \<and>
   api_calls ready_world \<noteq> api_calls later_world \<and>
   (\<forall>kw. fst (generate_with_retry pair_base (default_fields :: unit ChatOpenAI) kw (remote ready_world)) =
          fst (generate_with_retry pair_base default_fields kw (remote later_world))) \<and>
   fst (generate pair_base default_fields [(''user'', ''Say hello'')] None ready_world) =
     fst (generate pair_base default_fields [(''user'', ''Say hello'')] None later_world) \<and>
   (\<exists>r. fst (generate pair_base default_fields [(''user'', ''Say hello'')] None later_world) = Inr r)"
proof -
  have h: "\<forall>kw. fst (generate_with_retry pair_base (default_fields :: unit ChatOpenAI) kw (remote ready_world)) =
          fst (generate_with_retry pair_base default_fields kw (remote later_world)) \<and>
        model_name (fst (snd (generate_with_retry pair_base (default_fields :: unit ChatOpenAI) kw (remote ready_world)))) =
          model_name (fst (snd (generate_with_retry pair_base (default_fields :: unit ChatOpenAI) kw (remote later_world))))"
    by (simp add: pair_base_def next_answer_def ready_world_def later_world_def)
  have d: "remote ready_world \<noteq> remote later_world"
    "api_calls ready_world \<noteq> api_calls later_world"
    by (simp_all add: ready_world_def later_world_def)
  have r: "\<exists>r. fst (generate pair_base default_fields [(''user'', ''Say hello'')] None later_world) = Inr r"
    by (simp add: generate_def call_kwargs_def create_message_dicts_def create_llm_result_def choice_message_def
        pair_base_def pair_to_dict_def dict_to_pair_def next_answer_def default_fields_def
        later_world_def two_choices_def map_add_def)
  from generate_deterministic [OF h, of "[(''user'', ''Say hello'')]" None] h d r
  show ?thesis by blast
qed

end
